theory Spec2Isabelle
  imports Main "HOL-Library.Word"
begin

section \<open>Organisms (organism.h)\<close>

text \<open>
  \<^verbatim>\<open>using vitality_t = uint64_t;\<close>: an unsigned 64-bit machine integer. Addition
  wraps around modulo \<open>2 ^ 64\<close>, \<open>div\<close> is the unsigned division and \<open>\<le>\<close> the unsigned
  order, as in C++.
\<close>

type_synonym vitality_t = "64 word"

text \<open>
  \<^verbatim>\<open>template <typename species_t, bool can_eat_meat, bool can_eat_plants> class Organism\<close>
  has the two data members \<open>species\<close> and \<open>vitality\<close>. The two boolean template
  parameters are part of the C++ type; here they are carried as fields of the value, so
  that organisms of different diets live in one HOL type. No operation of the class
  changes them. The requirement \<open>equality_comparable<species_t>\<close> is the equality of
  the HOL type \<open>'s\<close>.
\<close>

record 's organism =
  species :: 's
  can_eat_meat :: bool
  can_eat_plants :: bool
  vitality :: vitality_t

text \<open>The constructor \<^verbatim>\<open>Organism(species_t const &species, uint64_t vitality)\<close> of the
  instance \<open>Organism<species_t, m, p>\<close>.\<close>

definition Organism :: "bool \<Rightarrow> bool \<Rightarrow> 's \<Rightarrow> vitality_t \<Rightarrow> 's organism" where
  "Organism m p sp v = \<lparr>species = sp, can_eat_meat = m, can_eat_plants = p, vitality = v\<rparr>"

definition get_vitality :: "'s organism \<Rightarrow> vitality_t" where
  "get_vitality this = vitality this"

definition is_dead :: "'s organism \<Rightarrow> bool" where
  "is_dead this \<longleftrightarrow> vitality this = 0"

definition get_species :: "'s organism \<Rightarrow> 's" where
  "get_species this = species this"

definition is_plant :: "'s organism \<Rightarrow> bool" where
  "is_plant this \<longleftrightarrow> \<not> can_eat_meat this \<and> \<not> can_eat_plants this"

definition can_eat :: "'s organism \<Rightarrow> 's organism \<Rightarrow> bool" where
  "can_eat this that =
     (if can_eat_meat this \<and> \<not> is_plant that then True
      else if can_eat_plants this \<and> is_plant that then True
      else False)"

definition are_species_equal :: "'s organism \<Rightarrow> 's organism \<Rightarrow> bool" where
  "are_species_equal this other \<longleftrightarrow>
     species this = get_species other \<and>
     can_eat_meat this = can_eat_meat other \<and>
     can_eat_plants this = can_eat_plants other"

definition set_vitality :: "'s organism \<Rightarrow> vitality_t \<Rightarrow> 's organism" where
  "set_vitality this new_vitality =
     Organism (can_eat_meat this) (can_eat_plants this) (species this) new_vitality"

definition add_vitality :: "'s organism \<Rightarrow> vitality_t \<Rightarrow> 's organism" where
  "add_vitality this change = set_vitality this (get_vitality this + change)"

definition kill :: "'s organism \<Rightarrow> 's organism" where
  "kill this = set_vitality this 0"

text \<open>The four aliases of the template.\<close>

definition Carnivore :: "'s \<Rightarrow> vitality_t \<Rightarrow> 's organism" where
  "Carnivore = Organism True False"

definition Omnivore :: "'s \<Rightarrow> vitality_t \<Rightarrow> 's organism" where
  "Omnivore = Organism True True"

definition Herbivore :: "'s \<Rightarrow> vitality_t \<Rightarrow> 's organism" where
  "Herbivore = Organism False True"

definition Plant :: "'s \<Rightarrow> vitality_t \<Rightarrow> 's organism" where
  "Plant = Organism False False"

section \<open>Encounters\<close>

text \<open>
  The two ways a call of \<open>encounter\<close> does not produce a tuple: the \<open>static_assert\<close>
  that rejects the instance for two plants (the program does not compile), and the
  \<^verbatim>\<open>throw logic_error("Illegal state")\<close> after the last rule.
\<close>

datatype error = Both_plants | Illegal_state

type_synonym 's encounter_result = "'s organism \<times> 's organism \<times> 's organism option"

text \<open>
  \<open>encounter\<close>, rule by rule in the order of the source. The assertion
  \<^verbatim>\<open>static_assert(!organism1.is_plant() || !organism2.is_plant())\<close> fails exactly
  when both arguments are plants, which is the first test. The offspring of rule 4 is
  built by the constructor of the first argument's class, from
  \<open>organism1.get_species()\<close> and the halved sum of the two vitalities, the sum being
  computed in \<open>vitality_t\<close>.
\<close>

definition encounter :: "'s organism \<Rightarrow> 's organism \<Rightarrow> error + 's encounter_result" where
  "encounter organism1 organism2 =
     (let nothing_happens = Inr (organism1, organism2, None) in
      if is_plant organism1 \<and> is_plant organism2 then Inl Both_plants
      else if is_dead organism1 \<or> is_dead organism2 then nothing_happens
      else if are_species_equal organism1 organism2 then
        Inr (organism1, organism2,
             Some (Organism (can_eat_meat organism1) (can_eat_plants organism1)
                     (get_species organism1)
                     ((get_vitality organism1 + get_vitality organism2) div 2)))
      else if \<not> can_eat organism1 organism2 \<and> \<not> can_eat organism2 organism1 then
        nothing_happens
      else if (\<not> is_plant organism1 \<and> \<not> is_plant organism2) \<and>
              (can_eat organism1 organism2 \<and> can_eat organism2 organism1) then
        (let organism1_dies = (get_vitality organism2 \<ge> get_vitality organism1);
             organism2_dies = (get_vitality organism1 \<ge> get_vitality organism2)
         in Inr ((if organism1_dies then kill organism1
                  else add_vitality organism1 (get_vitality organism2 div 2)),
                 (if organism2_dies then kill organism2
                  else add_vitality organism2 (get_vitality organism1 div 2)),
                 None))
      else if is_plant organism2 \<and> can_eat organism1 organism2 then
        Inr (add_vitality organism1 (get_vitality organism2), kill organism2, None)
      else if is_plant organism1 \<and> can_eat organism2 organism1 then
        Inr (kill organism1, add_vitality organism2 (get_vitality organism1), None)
      else if can_eat organism1 organism2 then
        (if get_vitality organism2 \<ge> get_vitality organism1 then nothing_happens
         else Inr (add_vitality organism1 (get_vitality organism2 div 2),
                   kill organism2, None))
      else if can_eat organism2 organism1 then
        (if get_vitality organism1 \<ge> get_vitality organism2 then nothing_happens
         else Inr (kill organism1,
                   add_vitality organism2 (get_vitality organism1 div 2), None))
      else Inl Illegal_state)"

text \<open>
  \<open>encounter_series\<close>: the variadic pack \<open>Args... args\<close> is a list. A step whose
  \<open>encounter\<close> does not produce a tuple ends the series with that failure.
\<close>

fun encounter_series :: "'s organism \<Rightarrow> 's organism list \<Rightarrow> error + 's organism" where
  "encounter_series organism1 [] = Inr organism1"
| "encounter_series organism1 (organism2 # args) =
     (case encounter organism1 organism2 of
        Inl e \<Rightarrow> Inl e
      | Inr r \<Rightarrow> encounter_series (fst r) args)"

text \<open>
  The series as the specification words it: a left fold of the first organism through
  pairwise encounters with the others in order, where each step keeps only the first
  component of the result tuple as the next accumulator. It is stated apart from
  \<open>encounter_series\<close> and compared with it below.
\<close>

definition spec_series_step :: "error + 's organism \<Rightarrow> 's organism \<Rightarrow> error + 's organism" where
  "spec_series_step acc other =
     (case acc of
        Inl e \<Rightarrow> Inl e
      | Inr first \<Rightarrow>
          (case encounter first other of
             Inl e \<Rightarrow> Inl e
           | Inr (first', other', offspring) \<Rightarrow> Inr first'))"

definition encounter_series_spec :: "'s organism \<Rightarrow> 's organism list \<Rightarrow> error + 's organism" where
  "encounter_series_spec x others = foldl spec_series_step (Inr x) others"

section \<open>Basic facts\<close>

lemmas organism_defs =
  is_plant_def is_dead_def can_eat_def are_species_equal_def get_vitality_def get_species_def

lemmas alias_defs = Carnivore_def Omnivore_def Herbivore_def Plant_def Organism_def

lemma set_vitality_fields:
  "species (set_vitality x v) = species x"
  "can_eat_meat (set_vitality x v) = can_eat_meat x"
  "can_eat_plants (set_vitality x v) = can_eat_plants x"
  "vitality (set_vitality x v) = v"
  by (simp_all add: set_vitality_def Organism_def)

lemma dead_encounter:
  assumes "\<not> (is_plant a \<and> is_plant b)" and "is_dead a \<or> is_dead b"
  shows "encounter a b = Inr (a, b, None)"
  using assms by (simp add: encounter_def Let_def)

lemma encounter_total:
  assumes "\<not> (is_plant a \<and> is_plant b)"
  shows "\<exists>r. encounter a b = Inr r"
  using assms by (auto simp add: encounter_def Let_def is_plant_def can_eat_def)

lemma kill_vitality: "get_vitality (kill x) = 0"
  by (simp add: get_vitality_def kill_def set_vitality_fields)

lemma one_way_diets:
  assumes "\<not> is_plant predator" and "\<not> is_plant prey"
    and "can_eat predator prey" and "\<not> can_eat prey predator"
  shows "\<not> are_species_equal predator prey" and "\<not> are_species_equal prey predator"
  using assms by (auto simp add: can_eat_def are_species_equal_def split: if_splits)

lemma plant_eater_diets:
  assumes "is_plant plant" and "can_eat eater plant"
  shows "\<not> is_plant eater" and "\<not> can_eat plant eater"
    and "\<not> are_species_equal eater plant" and "\<not> are_species_equal plant eater"
  using assms by (auto simp add: can_eat_def is_plant_def are_species_equal_def split: if_splits)

lemma add_vitality_fields:
  "species (add_vitality e d) = species e"
  "can_eat_meat (add_vitality e d) = can_eat_meat e"
  "can_eat_plants (add_vitality e d) = can_eat_plants e"
  "get_vitality (add_vitality e d) = get_vitality e + d"
  by (simp_all add: add_vitality_def get_vitality_def set_vitality_fields)

lemma kill_fields:
  "species (kill e) = species e"
  "can_eat_meat (kill e) = can_eat_meat e"
  "can_eat_plants (kill e) = can_eat_plants e"
  by (simp_all add: kill_def set_vitality_fields)

text \<open>The first component of a result is the first argument with, at most, another
  vitality: it keeps its species and its diet.\<close>

lemma encounter_first_diet:
  assumes "encounter a b = Inr r"
  shows "species (fst r) = species a"
    and "can_eat_meat (fst r) = can_eat_meat a"
    and "can_eat_plants (fst r) = can_eat_plants a"
  using assms
  by (auto simp add: encounter_def Let_def add_vitality_fields kill_fields split: if_splits)

lemma encounter_first_is_plant:
  assumes "encounter a b = Inr r"
  shows "is_plant (fst r) \<longleftrightarrow> is_plant a"
  using encounter_first_diet [OF assms] by (simp add: is_plant_def)

text \<open>The mating rule, with the offspring written out field by field.\<close>

lemma encounter_mating:
  assumes "\<not> is_dead a" and "\<not> is_dead b" and "\<not> is_plant a"
    and "species a = species b"
    and "can_eat_meat a = can_eat_meat b" and "can_eat_plants a = can_eat_plants b"
  shows "encounter a b =
           Inr (a, b, Some \<lparr>species = species a, can_eat_meat = can_eat_meat a,
                            can_eat_plants = can_eat_plants a,
                            vitality = (vitality a + vitality b) div 2\<rparr>)"
  using assms
  by (simp add: encounter_def Let_def are_species_equal_def get_species_def
      get_vitality_def Organism_def)

text \<open>When the sum of the two vitalities fits into 64 bits, the offspring's vitality is
  the mean of the parents' vitalities, rounded down.\<close>

lemma encounter_mating_exact:
  assumes "\<not> is_dead a" and "\<not> is_dead b" and "\<not> is_plant a"
    and "species a = species b"
    and "can_eat_meat a = can_eat_meat b" and "can_eat_plants a = can_eat_plants b"
    and "unat (vitality a) + unat (vitality b) < 2 ^ 64"
  shows "\<exists>c. encounter a b = Inr (a, b, Some c) \<and> species c = species a \<and>
           can_eat_meat c = can_eat_meat a \<and> can_eat_plants c = can_eat_plants a \<and>
           unat (vitality c) = (unat (vitality a) + unat (vitality b)) div 2"
proof -
  have "unat (vitality a + vitality b) = unat (vitality a) + unat (vitality b)"
    using assms(7) by (simp add: unat_word_ariths)
  then have "unat ((vitality a + vitality b) div 2) = (unat (vitality a) + unat (vitality b)) div 2"
    by (simp add: unat_div)
  then show ?thesis using encounter_mating [OF assms(1-6)] by simp
qed

lemma spec_series_step_simps:
  "spec_series_step (Inl e) y = Inl e"
  "encounter x y = Inl e \<Longrightarrow> spec_series_step (Inr x) y = Inl e"
  "encounter x y = Inr r \<Longrightarrow> spec_series_step (Inr x) y = Inr (fst r)"
  by (simp_all add: spec_series_step_def split: prod.splits)

lemma foldl_spec_series_step_Inl: "foldl spec_series_step (Inl e) others = Inl e"
  by (induction others) (simp_all add: spec_series_step_simps)

lemma encounter_series_total:
  assumes "\<forall>y \<in> set others. \<not> (is_plant x \<and> is_plant y)"
  shows "\<exists>r. encounter_series x others = Inr r"
  using assms
proof (induction others arbitrary: x)
  case Nil
  show ?case by simp
next
  case (Cons y ys)
  then have "\<not> (is_plant x \<and> is_plant y)" by simp
  then obtain r where r: "encounter x y = Inr r"
    using encounter_total by blast
  have "\<forall>z \<in> set ys. \<not> (is_plant (fst r) \<and> is_plant z)"
    using Cons.prems encounter_first_is_plant [OF r] by simp
  then show ?case using Cons.IH [of "fst r"] r by simp
qed

text \<open>Unfolding everything, for evaluating the operations on concrete organisms.\<close>

lemmas concrete_defs =
  organism_defs alias_defs kill_def add_vitality_def set_vitality_def

section \<open>The dead-party rule\<close>

text \<open>
  Claim C9. When at least one of the two organisms is dead (vitality 0), \<open>encounter\<close>
  returns both organisms exactly as they were given (same species, diet and vitality)
  and no offspring, whatever the two diets are. The pair of two plants is the one
  combination for which \<open>encounter\<close> has no instance (the \<open>static_assert\<close>), so it is
  excluded as in the source.
\<close>

theorem encounter_dead_unchanged:
  assumes "\<not> (is_plant a \<and> is_plant b)" and "is_dead a \<or> is_dead b"
  shows "encounter a b = Inr (a, b, None)"
  using assms by (simp add: encounter_def Let_def)

theorem encounter_dead_unchanged_witness:
  "\<not> (is_plant (Carnivore ''lion'' 0) \<and> is_plant (Plant ''fern'' 7)) \<and>
   (is_dead (Carnivore ''lion'' 0) \<or> is_dead (Plant ''fern'' 7)) \<and>
   encounter (Carnivore ''lion'' 0) (Plant ''fern'' 7)
     = Inr (Carnivore ''lion'' 0, Plant ''fern'' 7, None)"
proof -
  have p: "\<not> (is_plant (Carnivore ''lion'' 0) \<and> is_plant (Plant ''fern'' 7))"
    by (simp add: is_plant_def alias_defs)
  have d: "is_dead (Carnivore ''lion'' 0) \<or> is_dead (Plant ''fern'' 7)"
    by (simp add: is_dead_def alias_defs)
  from p d encounter_dead_unchanged [OF p d] show ?thesis by simp
qed

section \<open>Exhaustiveness of the rules\<close>

text \<open>
  Claim C2. For every pair of organisms that are not both plants, the final
  \<open>throw logic_error("Illegal state")\<close> is not reached: one of the rules before it
  fires, so \<open>encounter\<close> returns a result tuple.
\<close>

theorem encounter_never_illegal_state:
  assumes "\<not> (is_plant a \<and> is_plant b)"
  shows "encounter a b \<noteq> Inl Illegal_state \<and> (\<exists>r. encounter a b = Inr r)"
  using assms by (auto simp add: encounter_def Let_def is_plant_def can_eat_def)

theorem encounter_never_illegal_state_witness:
  "\<not> (is_plant (Herbivore ''gazelle'' 130) \<and> is_plant (Carnivore ''lion'' 462)) \<and>
   encounter (Herbivore ''gazelle'' 130) (Carnivore ''lion'' 462) \<noteq> Inl Illegal_state \<and>
   (\<exists>r. encounter (Herbivore ''gazelle'' 130) (Carnivore ''lion'' 462) = Inr r)"
proof -
  have p: "\<not> (is_plant (Herbivore ''gazelle'' 130) \<and> is_plant (Carnivore ''lion'' 462))"
    by (simp add: is_plant_def alias_defs)
  from p encounter_never_illegal_state [OF p] show ?thesis by simp
qed

section \<open>Symmetry under swapping the arguments\<close>

text \<open>
  Claim C1. For every pair of organisms \<open>a\<close>, \<open>b\<close> that are not both plants,
  \<open>encounter a b\<close> and \<open>encounter b a\<close> both return a tuple, with the same two
  updated organisms in swapped positions and the same offspring (or none), whichever
  rule fires.
\<close>

theorem encounter_swap:
  assumes "\<not> (is_plant a \<and> is_plant b)"
  shows "\<exists>a' b' c. encounter a b = Inr (a', b', c) \<and> encounter b a = Inr (b', a', c)"
  using assms
  by (auto simp add: encounter_def Let_def organism_defs Organism_def add.commute)

theorem encounter_swap_witness:
  "\<not> (is_plant (Omnivore ''bear'' 100) \<and> is_plant (Carnivore ''lion'' 40)) \<and>
   (\<exists>a' b' c. encounter (Omnivore ''bear'' 100) (Carnivore ''lion'' 40) = Inr (a', b', c) \<and>
              encounter (Carnivore ''lion'' 40) (Omnivore ''bear'' 100) = Inr (b', a', c))"
proof -
  have p: "\<not> (is_plant (Omnivore ''bear'' 100) \<and> is_plant (Carnivore ''lion'' 40))"
    by (simp add: is_plant_def alias_defs)
  from p encounter_swap [OF p] show ?thesis by simp
qed

section \<open>Mutual predation\<close>

text \<open>
  Claim C3, as stated, for every two living non-plant organisms that can eat each other:
  no offspring, and each side is killed when the other's vitality is at least its own.
  Two living carnivores of one species can eat each other, but rule 4 (same species) is
  tested before rule 6: they mate, both stay as they are and an offspring is returned.
\<close>

theorem mutual_predation_same_species_counterexample:
  "\<not> is_dead (Carnivore ''lion'' 10) \<and> \<not> is_dead (Carnivore ''lion'' 20) \<and>
   \<not> is_plant (Carnivore ''lion'' 10) \<and> \<not> is_plant (Carnivore ''lion'' 20) \<and>
   can_eat (Carnivore ''lion'' 10) (Carnivore ''lion'' 20) \<and>
   can_eat (Carnivore ''lion'' 20) (Carnivore ''lion'' 10) \<and>
   get_vitality (Carnivore ''lion'' 20) \<ge> get_vitality (Carnivore ''lion'' 10) \<and>
   encounter (Carnivore ''lion'' 10) (Carnivore ''lion'' 20)
     = Inr (Carnivore ''lion'' 10, Carnivore ''lion'' 20, Some (Carnivore ''lion'' 15)) \<and>
   Carnivore ''lion'' 10 \<noteq> kill (Carnivore ''lion'' 10)"
  by (simp add: encounter_def Let_def concrete_defs)

text \<open>
  Claim C3, amended. For every two living non-plant organisms \<open>a\<close> and \<open>b\<close> that can
  eat each other and are not of the same species (species value or diet differs),
  \<open>encounter a b\<close> returns no offspring and: \<open>a\<close> is killed if \<open>b\<close>'s vitality is at least
  \<open>a\<close>'s, otherwise \<open>a\<close> gains half of \<open>b\<close>'s vitality, rounded down
  (\<open>add_vitality\<close>); and the same for \<open>b\<close> with the roles exchanged. With equal
  vitalities both are killed. A killed organism has vitality 0.
\<close>

theorem encounter_mutual_predation:
  assumes "\<not> is_dead a" and "\<not> is_dead b"
    and "\<not> is_plant a" and "\<not> is_plant b"
    and "can_eat a b" and "can_eat b a"
    and "\<not> are_species_equal a b"
  shows "encounter a b =
           Inr (if get_vitality b \<ge> get_vitality a then kill a
                else add_vitality a (get_vitality b div 2),
                if get_vitality a \<ge> get_vitality b then kill b
                else add_vitality b (get_vitality a div 2),
                None) \<and>
         (get_vitality a = get_vitality b \<longrightarrow> encounter a b = Inr (kill a, kill b, None)) \<and>
         get_vitality (kill a) = 0 \<and> get_vitality (kill b) = 0"
proof -
  have "encounter a b =
           Inr (if get_vitality b \<ge> get_vitality a then kill a
                else add_vitality a (get_vitality b div 2),
                if get_vitality a \<ge> get_vitality b then kill b
                else add_vitality b (get_vitality a div 2),
                None)"
    using assms by (simp add: encounter_def Let_def)
  then show ?thesis by (simp add: kill_vitality)
qed

theorem encounter_mutual_predation_witness:
  "\<not> is_dead (Carnivore ''lion'' 100) \<and> \<not> is_dead (Omnivore ''bear'' 40) \<and>
   \<not> is_plant (Carnivore ''lion'' 100) \<and> \<not> is_plant (Omnivore ''bear'' 40) \<and>
   can_eat (Carnivore ''lion'' 100) (Omnivore ''bear'' 40) \<and>
   can_eat (Omnivore ''bear'' 40) (Carnivore ''lion'' 100) \<and>
   \<not> are_species_equal (Carnivore ''lion'' 100) (Omnivore ''bear'' 40) \<and>
   encounter (Carnivore ''lion'' 100) (Omnivore ''bear'' 40)
     = Inr (Carnivore ''lion'' 120, Omnivore ''bear'' 0, None) \<and>
   encounter (Carnivore ''lion'' 50) (Carnivore ''tiger'' 50)
     = Inr (Carnivore ''lion'' 0, Carnivore ''tiger'' 0, None)"
proof -
  let ?a = "Carnivore ''lion'' 100" and ?b = "Omnivore ''bear'' 40"
  let ?c = "Carnivore ''lion'' 50" and ?d = "Carnivore ''tiger'' 50"
  have h: "\<not> is_dead ?a" "\<not> is_dead ?b" "\<not> is_plant ?a" "\<not> is_plant ?b"
    "can_eat ?a ?b" "can_eat ?b ?a" "\<not> are_species_equal ?a ?b"
    by (simp_all add: concrete_defs)
  have k: "\<not> is_dead ?c" "\<not> is_dead ?d" "\<not> is_plant ?c" "\<not> is_plant ?d"
    "can_eat ?c ?d" "can_eat ?d ?c" "\<not> are_species_equal ?c ?d"
    by (simp_all add: concrete_defs)
  have "encounter ?a ?b = Inr (Carnivore ''lion'' 120, Omnivore ''bear'' 0, None)"
    using encounter_mutual_predation [OF h] by (simp add: concrete_defs)
  moreover have "encounter ?c ?d = Inr (Carnivore ''lion'' 0, Carnivore ''tiger'' 0, None)"
    using encounter_mutual_predation [OF k] by (simp add: concrete_defs)
  ultimately show ?thesis using h by simp
qed

section \<open>Plant predation\<close>

text \<open>
  Claim C6. For every living plant and every living organism that can eat it,
  \<open>encounter\<close> returns no offspring, the eater gains the plant's full vitality
  (\<open>add_vitality\<close> with the plant's vitality) and the plant is killed, in whichever
  argument position the plant stands. The source tests the case of a plant in second
  position before the case of a plant in first position; the eater of a plant is not a
  plant, so at most one of the two tests can hold.
\<close>

theorem encounter_plant_predation:
  assumes "\<not> is_dead plant" and "\<not> is_dead eater"
    and "is_plant plant" and "can_eat eater plant"
  shows "encounter eater plant =
           Inr (add_vitality eater (get_vitality plant), kill plant, None) \<and>
         encounter plant eater =
           Inr (kill plant, add_vitality eater (get_vitality plant), None) \<and>
         get_vitality (kill plant) = 0 \<and>
         \<not> (is_plant eater \<and> can_eat plant eater)"
proof -
  note d = plant_eater_diets [OF assms(3,4)]
  have "encounter eater plant =
           Inr (add_vitality eater (get_vitality plant), kill plant, None)"
    using assms d by (simp add: encounter_def Let_def)
  moreover have "encounter plant eater =
           Inr (kill plant, add_vitality eater (get_vitality plant), None)"
    using assms d by (simp add: encounter_def Let_def)
  ultimately show ?thesis using d by (simp add: kill_vitality)
qed

theorem encounter_plant_predation_witness:
  "\<not> is_dead (Plant ''grass'' 50) \<and> \<not> is_dead (Herbivore ''cow'' 30) \<and>
   is_plant (Plant ''grass'' 50) \<and> can_eat (Herbivore ''cow'' 30) (Plant ''grass'' 50) \<and>
   encounter (Herbivore ''cow'' 30) (Plant ''grass'' 50)
     = Inr (Herbivore ''cow'' 80, Plant ''grass'' 0, None) \<and>
   encounter (Plant ''grass'' 50) (Herbivore ''cow'' 30)
     = Inr (Plant ''grass'' 0, Herbivore ''cow'' 80, None)"
proof -
  let ?p = "Plant ''grass'' 50" and ?e = "Herbivore ''cow'' 30"
  have h: "\<not> is_dead ?p" "\<not> is_dead ?e" "is_plant ?p" "can_eat ?e ?p"
    by (simp_all add: concrete_defs)
  have "encounter ?e ?p = Inr (Herbivore ''cow'' 80, Plant ''grass'' 0, None) \<and>
        encounter ?p ?e = Inr (Plant ''grass'' 0, Herbivore ''cow'' 80, None)"
    using encounter_plant_predation [OF h] by (simp add: concrete_defs)
  with h show ?thesis by simp
qed

section \<open>One-directional predation\<close>

text \<open>
  Claim C5, as stated: when the prey is weaker, the predator gains half of the prey's
  vitality, rounded down. A carnivore of vitality \<open>2 ^ 64 - 2\<close> meets a herbivore of
  vitality 4: only the carnivore can eat the other, the prey is weaker, and the
  predator's new vitality \<open>2 ^ 64 - 2 + 2\<close> wraps around to 0.
\<close>

theorem one_directional_overflow_counterexample:
  "\<not> is_dead (Carnivore ''lion'' 18446744073709551614) \<and>
   \<not> is_dead (Herbivore ''cow'' 4) \<and>
   \<not> is_plant (Carnivore ''lion'' 18446744073709551614) \<and>
   \<not> is_plant (Herbivore ''cow'' 4) \<and>
   can_eat (Carnivore ''lion'' 18446744073709551614) (Herbivore ''cow'' 4) \<and>
   \<not> can_eat (Herbivore ''cow'' 4) (Carnivore ''lion'' 18446744073709551614) \<and>
   \<not> are_species_equal (Carnivore ''lion'' 18446744073709551614) (Herbivore ''cow'' 4) \<and>
   get_vitality (Herbivore ''cow'' 4) < get_vitality (Carnivore ''lion'' 18446744073709551614) \<and>
   encounter (Carnivore ''lion'' 18446744073709551614) (Herbivore ''cow'' 4)
     = Inr (Carnivore ''lion'' 0, Herbivore ''cow'' 0, None) \<and>
   unat (get_vitality (Carnivore ''lion'' 0))
     \<noteq> unat (get_vitality (Carnivore ''lion'' 18446744073709551614)) +
        unat (get_vitality (Herbivore ''cow'' 4)) div 2"
  by (simp add: encounter_def Let_def concrete_defs)

text \<open>
  Claim C5, amended. For every two living non-plant organisms of which exactly one (the
  predator) can eat the other (the prey), \<open>encounter\<close> returns no offspring, in either
  argument order: when the prey's vitality is at least the predator's, both are
  returned unchanged; otherwise the prey is killed (vitality 0) and the predator is
  returned with \<open>add_vitality\<close> of half the prey's vitality, rounded down, that is
  with the vitality \<open>(predator's vitality + prey's vitality div 2) mod 2 ^ 64\<close>, which
  is the exact sum whenever that sum is below \<open>2 ^ 64\<close>. Such a pair is never of the
  same species, since the two diets differ.
\<close>

theorem encounter_one_directional:
  assumes "\<not> is_dead predator" and "\<not> is_dead prey"
    and "\<not> is_plant predator" and "\<not> is_plant prey"
    and "can_eat predator prey" and "\<not> can_eat prey predator"
  shows "encounter predator prey =
           (if get_vitality prey \<ge> get_vitality predator then Inr (predator, prey, None)
            else Inr (add_vitality predator (get_vitality prey div 2), kill prey, None)) \<and>
         encounter prey predator =
           (if get_vitality prey \<ge> get_vitality predator then Inr (prey, predator, None)
            else Inr (kill prey, add_vitality predator (get_vitality prey div 2), None)) \<and>
         get_vitality (kill prey) = 0 \<and>
         \<not> are_species_equal predator prey \<and>
         unat (get_vitality (add_vitality predator (get_vitality prey div 2)))
           = (unat (get_vitality predator) + unat (get_vitality prey) div 2) mod 2 ^ 64 \<and>
         (unat (get_vitality predator) + unat (get_vitality prey) div 2 < 2 ^ 64 \<longrightarrow>
            unat (get_vitality (add_vitality predator (get_vitality prey div 2)))
              = unat (get_vitality predator) + unat (get_vitality prey) div 2)"
proof -
  note sp = one_way_diets [OF assms(3-6)]
  have e1: "encounter predator prey =
           (if get_vitality prey \<ge> get_vitality predator then Inr (predator, prey, None)
            else Inr (add_vitality predator (get_vitality prey div 2), kill prey, None))"
    using assms sp by (simp add: encounter_def Let_def)
  have e2: "encounter prey predator =
           (if get_vitality prey \<ge> get_vitality predator then Inr (prey, predator, None)
            else Inr (kill prey, add_vitality predator (get_vitality prey div 2), None))"
    using assms sp by (simp add: encounter_def Let_def)
  have half: "unat (get_vitality prey div 2) = unat (get_vitality prey) div 2"
    by (simp add: unat_div)
  have m: "unat (get_vitality (add_vitality predator (get_vitality prey div 2)))
           = (unat (get_vitality predator) + unat (get_vitality prey) div 2) mod 2 ^ 64"
  proof -
    have "unat (get_vitality predator + get_vitality prey div 2)
          = (unat (get_vitality predator) + unat (get_vitality prey div 2)) mod 2 ^ 64"
      by (simp add: unat_word_ariths)
    then show ?thesis by (simp only: add_vitality_fields half)
  qed
  have x: "unat (get_vitality predator) + unat (get_vitality prey) div 2 < 2 ^ 64 \<longrightarrow>
           unat (get_vitality (add_vitality predator (get_vitality prey div 2)))
             = unat (get_vitality predator) + unat (get_vitality prey) div 2"
    using m by simp
  have k: "get_vitality (kill prey) = 0" by (rule kill_vitality)
  from e1 e2 k sp(1) m x show ?thesis by blast
qed

theorem encounter_one_directional_witness:
  "\<not> is_dead (Carnivore ''lion'' 10) \<and> \<not> is_dead (Herbivore ''cow'' 10) \<and>
   \<not> is_plant (Carnivore ''lion'' 10) \<and> \<not> is_plant (Herbivore ''cow'' 10) \<and>
   can_eat (Carnivore ''lion'' 10) (Herbivore ''cow'' 10) \<and>
   \<not> can_eat (Herbivore ''cow'' 10) (Carnivore ''lion'' 10) \<and>
   encounter (Carnivore ''lion'' 10) (Herbivore ''cow'' 10)
     = Inr (Carnivore ''lion'' 10, Herbivore ''cow'' 10, None) \<and>
   encounter (Herbivore ''cow'' 10) (Carnivore ''lion'' 10)
     = Inr (Herbivore ''cow'' 10, Carnivore ''lion'' 10, None) \<and>
   encounter (Carnivore ''lion'' 100) (Herbivore ''cow'' 40)
     = Inr (Carnivore ''lion'' 120, Herbivore ''cow'' 0, None) \<and>
   encounter (Herbivore ''cow'' 40) (Carnivore ''lion'' 100)
     = Inr (Herbivore ''cow'' 0, Carnivore ''lion'' 120, None)"
proof -
  let ?l = "Carnivore ''lion'' 10" and ?c = "Herbivore ''cow'' 10"
  let ?L = "Carnivore ''lion'' 100" and ?C = "Herbivore ''cow'' 40"
  have h: "\<not> is_dead ?l" "\<not> is_dead ?c" "\<not> is_plant ?l" "\<not> is_plant ?c"
    "can_eat ?l ?c" "\<not> can_eat ?c ?l"
    by (simp_all add: concrete_defs)
  have H: "\<not> is_dead ?L" "\<not> is_dead ?C" "\<not> is_plant ?L" "\<not> is_plant ?C"
    "can_eat ?L ?C" "\<not> can_eat ?C ?L"
    by (simp_all add: concrete_defs)
  have "encounter ?l ?c = Inr (?l, ?c, None) \<and> encounter ?c ?l = Inr (?c, ?l, None)"
    using encounter_one_directional [OF h] by (simp add: get_vitality_def alias_defs)
  moreover have "encounter ?L ?C = Inr (Carnivore ''lion'' 120, Herbivore ''cow'' 0, None) \<and>
                 encounter ?C ?L = Inr (Herbivore ''cow'' 0, Carnivore ''lion'' 120, None)"
    using encounter_one_directional [OF H] by (simp add: concrete_defs)
  ultimately show ?thesis using h by simp
qed

section \<open>Mating\<close>

text \<open>
  Claim C4 says that two living organisms of equal species value and equal diet come
  back unchanged together with an offspring of the first argument's species and diet
  whose vitality is the mean of the two vitalities, rounded down. The source's comment
  on rule 4 says the same (the arithmetic mean of the parents' vitalities, rounded
  down). The code adds the two vitalities in \<open>uint64_t\<close> before halving. Evaluated on two
  carnivores of one species with vitality \<open>2 ^ 63\<close> each, the sum wraps to 0 and the
  offspring has vitality 0, while the mean of the two vitalities is \<open>2 ^ 63\<close>. The
  two carnivores can also eat each other: mating is tested first.
\<close>

theorem mating_offspring_vitality_overflow:
  "encounter (Carnivore ''lion'' 9223372036854775808) (Carnivore ''lion'' 9223372036854775808)
     = Inr (Carnivore ''lion'' 9223372036854775808, Carnivore ''lion'' 9223372036854775808,
            Some (Carnivore ''lion'' 0)) \<and>
   (unat (get_vitality (Carnivore ''lion'' 9223372036854775808)) +
    unat (get_vitality (Carnivore ''lion'' 9223372036854775808))) div 2 = 9223372036854775808 \<and>
   can_eat (Carnivore ''lion'' 9223372036854775808) (Carnivore ''lion'' 9223372036854775808)"
  by (simp add: encounter_def Let_def concrete_defs)

section \<open>Adding vitality\<close>

text \<open>
  Claim C7, as stated: \<open>add_vitality\<close> yields exactly the sum of the old vitality and
  the change and never a smaller vitality. At the largest vitality, adding 1 wraps
  around to vitality 0.
\<close>

theorem add_vitality_overflow_counterexample:
  "unat (get_vitality (add_vitality (Carnivore ''lion'' 18446744073709551615) 1))
     \<noteq> unat (get_vitality (Carnivore ''lion'' 18446744073709551615)) + unat (1 :: vitality_t) \<and>
   get_vitality (add_vitality (Carnivore ''lion'' 18446744073709551615) 1) = 0 \<and>
   get_vitality (add_vitality (Carnivore ''lion'' 18446744073709551615) 1)
     < get_vitality (Carnivore ''lion'' 18446744073709551615)"
  by (simp add: concrete_defs)

text \<open>
  Claim C7, amended. For every organism \<open>e\<close> and every change \<open>d\<close> of type
  \<open>vitality_t\<close>, \<open>add_vitality e d\<close> has the species and diet of \<open>e\<close> and the vitality
  \<open>(vitality e + d) mod 2 ^ 64\<close>. This is exactly \<open>vitality e + d\<close> whenever that sum is
  below \<open>2 ^ 64\<close>, and the result's vitality is at least that of \<open>e\<close> exactly in that
  case.
\<close>

theorem add_vitality_modular:
  "unat (get_vitality (add_vitality e d)) = (unat (get_vitality e) + unat d) mod 2 ^ 64 \<and>
   species (add_vitality e d) = species e \<and>
   can_eat_meat (add_vitality e d) = can_eat_meat e \<and>
   can_eat_plants (add_vitality e d) = can_eat_plants e \<and>
   (unat (get_vitality e) + unat d < 2 ^ 64 \<longrightarrow>
      unat (get_vitality (add_vitality e d)) = unat (get_vitality e) + unat d) \<and>
   (get_vitality e \<le> get_vitality (add_vitality e d) \<longleftrightarrow>
      unat (get_vitality e) + unat d < 2 ^ 64)"
proof -
  have m: "unat (get_vitality e + d) = (unat (get_vitality e) + unat d) mod 2 ^ 64"
    by (simp add: unat_word_ariths)
  have le: "get_vitality e \<le> get_vitality e + d \<longleftrightarrow> unat (get_vitality e) + unat d < 2 ^ 64"
    using no_olen_add_nat [of "get_vitality e" d] by simp
  from m le show ?thesis by (simp add: add_vitality_fields)
qed

theorem add_vitality_modular_witness:
  "unat (get_vitality (Herbivore ''cow'' 30)) + unat (50 :: vitality_t) < 2 ^ 64 \<and>
   unat (get_vitality (add_vitality (Herbivore ''cow'' 30) 50)) = 80 \<and>
   get_vitality (Herbivore ''cow'' 30) \<le> get_vitality (add_vitality (Herbivore ''cow'' 30) 50)"
proof -
  have h: "unat (get_vitality (Herbivore ''cow'' 30)) + unat (50 :: vitality_t) < 2 ^ 64"
    by (simp add: concrete_defs)
  have v: "unat (get_vitality (Herbivore ''cow'' 30)) + unat (50 :: vitality_t) = 80"
    by (simp add: concrete_defs)
  from add_vitality_modular [of "Herbivore ''cow'' 30" 50] h v show ?thesis by simp
qed

section \<open>Series of encounters\<close>

text \<open>
  Claim C8. For every organism \<open>x\<close> and every finite sequence of organisms,
  \<open>encounter_series\<close> equals the left fold of \<open>x\<close> through pairwise encounters with
  the sequence in order, each step keeping only the first component of the result (the
  other organism's update and the offspring are dropped). With no further organism it
  returns \<open>x\<close> unchanged. When every call in the series has an instance (no plant
  meets a plant), the series returns an organism.
\<close>

theorem encounter_series_is_fold:
  "encounter_series x others = encounter_series_spec x others \<and>
   encounter_series x [] = Inr x \<and>
   ((\<forall>y \<in> set others. \<not> (is_plant x \<and> is_plant y)) \<longrightarrow>
      (\<exists>r. encounter_series x others = Inr r))"
proof -
  have "encounter_series x others = foldl spec_series_step (Inr x) others"
  proof (induction others arbitrary: x)
    case Nil
    show ?case by simp
  next
    case (Cons a as)
    show ?case
    proof (cases "encounter x a")
      case (Inl e)
      then show ?thesis
        by (simp add: spec_series_step_simps foldl_spec_series_step_Inl)
    next
      case (Inr r)
      then show ?thesis using Cons.IH [of "fst r"]
        by (simp add: spec_series_step_simps)
    qed
  qed
  then show ?thesis using encounter_series_total [of others x] by (simp add: encounter_series_spec_def)
qed

theorem encounter_series_is_fold_witness:
  "\<not> is_plant (Carnivore ''lion'' 100) \<and>
   encounter_series (Carnivore ''lion'' 100)
     [Herbivore ''cow'' 40, Plant ''grass'' 5, Carnivore ''lion'' 10]
     = Inr (Carnivore ''lion'' 120) \<and>
   encounter_series_spec (Carnivore ''lion'' 100)
     [Herbivore ''cow'' 40, Plant ''grass'' 5, Carnivore ''lion'' 10]
     = Inr (Carnivore ''lion'' 120)"
proof -
  let ?x = "Carnivore ''lion'' 100"
  let ?ys = "[Herbivore ''cow'' 40, Plant ''grass'' 5, Carnivore ''lion'' 10]"
  have p: "\<not> is_plant ?x" by (simp add: concrete_defs)
  have e: "encounter_series ?x ?ys = Inr (Carnivore ''lion'' 120)"
    by (simp add: encounter_def Let_def concrete_defs)
  from encounter_series_is_fold [of ?x ?ys] p e show ?thesis by simp
qed

section \<open>A dead organism passes through a series unchanged\<close>

text \<open>
  Claim C10. For every dead organism \<open>x\<close> (vitality 0) and every sequence of other
  organisms of any diets, \<open>encounter_series\<close> returns \<open>x\<close> unchanged: the dead-party
  rule fires at every step. The calls must have an instance: when \<open>x\<close> is a plant, no
  other organism of the series is a plant.
\<close>

theorem encounter_series_dead:
  assumes "is_dead x" and "\<forall>y \<in> set others. \<not> (is_plant x \<and> is_plant y)"
  shows "encounter_series x others = Inr x"
  using assms
proof (induction others)
  case Nil
  show ?case by simp
next
  case (Cons y ys)
  then have "encounter x y = Inr (x, y, None)"
    by (simp add: dead_encounter)
  with Cons show ?case by simp
qed

theorem encounter_series_dead_witness:
  "is_dead (Herbivore ''cow'' 0) \<and> \<not> is_plant (Herbivore ''cow'' 0) \<and>
   encounter_series (Herbivore ''cow'' 0)
     [Plant ''grass'' 5, Carnivore ''lion'' 10, Herbivore ''cow'' 7]
     = Inr (Herbivore ''cow'' 0)"
proof -
  let ?x = "Herbivore ''cow'' 0"
  let ?ys = "[Plant ''grass'' 5, Carnivore ''lion'' 10, Herbivore ''cow'' 7]"
  have d: "is_dead ?x" and p: "\<not> is_plant ?x" by (simp_all add: concrete_defs)
  from p have w: "\<forall>y \<in> set ?ys. \<not> (is_plant ?x \<and> is_plant y)" by simp
  from encounter_series_dead [OF d w] d p show ?thesis by simp
qed

end
